theory Spec2Isabelle
  imports Main "HOL-Library.Char_ord" "HOL-Library.List_Lexorder"
begin

section \<open>The route handlers of mojopi (src/mojopi/views.py)\<close>

text \<open>
  The handlers of \<^verbatim>\<open>views.py\<close> are embedded as functions on an explicit state: the four
  tables of the relational store, the two upload directories, the login session and the
  flashed messages. An \<^verbatim>\<open>abort\<close> and an exception that no handler catches are values of
  the response type. The modules \<^verbatim>\<open>models.py\<close> and \<^verbatim>\<open>utils.py\<close> are not part of the
  sources at hand: the functions a handler imports from them (\<^verbatim>\<open>verify_password\<close>,
  \<^verbatim>\<open>hash_password\<close>, \<^verbatim>\<open>calculate_sha256\<close>, \<^verbatim>\<open>add_ring\<close>) are parameters of its model,
  and so is what a handler takes from Python's libraries, the store and the file system
  where its result depends on more than the state holds.
\<close>

subsection \<open>Records of the store\<close>

text \<open>
  A nullable text column is a \<open>string option\<close> (\<open>None\<close> is NULL, Python's \<^verbatim>\<open>None\<close>); a
  timestamp is an \<open>int option\<close>. The field lists are the attributes \<^verbatim>\<open>views.py\<close> reads and
  writes.
\<close>

record user =
  uid :: nat
  email :: string
  username :: string
  password :: "string option"
  picture :: "string option"

record profile =
  pf_id :: nat
  pf_user :: nat
  is_public :: bool
  education :: string
  experience :: string
  bio :: string

record project =
  p_name :: string
  p_version :: "string option"
  description :: "string option"
  description_content_type :: "string option"
  home_page :: "string option"
  p_keywords :: "string option"
  license :: "string option"
  maintainer :: "string option"
  maintainer_email :: "string option"
  summary :: "string option"
  create_at :: "int option"
  last_modified :: "int option"

record ring =
  r_name :: string
  r_version :: "string option"
  platform :: "string option"
  author :: "string option"
  author_email :: "string option"
  requires_dist :: "string option"
  requires_mojo :: "string option"
  file_name :: "string option"
  sha256 :: "string option"
  upload_at :: "int option"

type_synonym content = "char list"

record state =
  users :: "user list"
  profiles :: "profile list"
  projects :: "project list"
  rings :: "ring list"
  pic_dir :: "string \<rightharpoonup> content"
  rings_dir :: "string \<rightharpoonup> content"
  session :: "nat option"
  flashes :: "string list"

subsection \<open>Python values, exceptions and responses\<close>

text \<open>Python's truth value of an optional string: \<^verbatim>\<open>None\<close> and \<^verbatim>\<open>""\<close> are false.\<close>

definition truthy :: "string option \<Rightarrow> bool" where
  "truthy v = (case v of None \<Rightarrow> False | Some s \<Rightarrow> s \<noteq> [])"

datatype exn =
    DoesNotExist
  | IntegrityError
  | InvalidInputError
  | UnboundLocalError
  | TypeError
  | OtherError string

datatype urlarg = ArgNone | ArgStr string | ArgNat nat

text \<open>
  A URL is either a literal path or the result of \<^verbatim>\<open>url_for(endpoint, **values)\<close>, kept
  symbolic.
\<close>

datatype url = UrlPath string | UrlFor string "(string \<times> urlarg) list"

text \<open>
  A value in the map \<^verbatim>\<open>project_info\<close> returns: \<^verbatim>\<open>None\<close>, a string or a timestamp.
\<close>

datatype pyval = PyNone | PyStr string | PyDatetime int

definition of_text :: "string option \<Rightarrow> pyval" where
  "of_text v = (case v of None \<Rightarrow> PyNone | Some s \<Rightarrow> PyStr s)"

definition of_datetime :: "int option \<Rightarrow> pyval" where
  "of_datetime v = (case v of None \<Rightarrow> PyNone | Some t \<Rightarrow> PyDatetime t)"

text \<open>Python's truth value of such a value; a timestamp is always true.\<close>

fun py_truthy :: "pyval \<Rightarrow> bool" where
  "py_truthy PyNone = False"
| "py_truthy (PyStr s) = (s \<noteq> [])"
| "py_truthy (PyDatetime t) = True"

datatype ctxval =
    CtxUrl url
  | CtxText "string option"
  | CtxProfile profile
  | CtxProjects "project list"

text \<open>
  The two upload directories, \<^verbatim>\<open>PIC_PATH\<close> and \<^verbatim>\<open>RINGS_PATH\<close> of \<^verbatim>\<open>utils.py\<close>, and any
  other directory, given by its path.
\<close>

datatype directory = PIC_PATH | RINGS_PATH | OtherDirectory string

text \<open>
  \<open>Abort code description\<close> is \<^verbatim>\<open>abort(code, description)\<close>; \<open>Unhandled e\<close> is an exception
  that leaves the handler (a server error).
\<close>

datatype response =
    Redirect url
  | Render string "(string \<times> ctxval) list"
  | Abort nat "string option"
  | SendFromDirectory directory string
  | JsonMessage string
  | Unhandled exn

subsection \<open>Lookups by primary key, the current user\<close>

text \<open>\<^verbatim>\<open>User.get_by_id(user_id)\<close>; \<open>None\<close> stands for the exception \<^verbatim>\<open>DoesNotExist\<close>.\<close>

definition get_by_id :: "user list \<Rightarrow> nat \<Rightarrow> user option" where
  "get_by_id us i = find (\<lambda>u. uid u = i) us"

text \<open>
  \<^verbatim>\<open>current_user\<close>: the user \<^verbatim>\<open>load_user\<close> finds for the id in the session; \<open>None\<close> is the
  anonymous user, whose \<^verbatim>\<open>is_authenticated\<close> is false.
\<close>

definition current_user :: "state \<Rightarrow> user option" where
  "current_user st = (case session st of None \<Rightarrow> None | Some i \<Rightarrow> get_by_id (users st) i)"

definition static_icon :: url where
  "static_icon = UrlFor ''static'' [(''filename'', ArgStr ''Sample_User_Icon.png'')]"

definition avatar_url :: "state \<Rightarrow> url" where
  "avatar_url st =
     (case current_user st of
        Some u \<Rightarrow> if truthy (picture u) then UrlFor ''fbp.get_profile_pic'' [] else static_icon
      | None \<Rightarrow> static_icon)"

text \<open>
  \<^verbatim>\<open>profile_pic_url\<close> (lines 69-80). The two local variables are followed explicitly: after
  the \<^verbatim>\<open>try\<close> statement either \<^verbatim>\<open>user\<close> is bound (and \<^verbatim>\<open>url\<close> is not), or the handler of
  \<^verbatim>\<open>DoesNotExist\<close> has bound \<^verbatim>\<open>url\<close> (and \<^verbatim>\<open>user\<close> is not). Reading the unbound \<^verbatim>\<open>user\<close>
  in \<^verbatim>\<open>user.picture\<close> raises \<^verbatim>\<open>UnboundLocalError\<close>.
\<close>

definition profile_pic_url :: "user list \<Rightarrow> nat \<Rightarrow> exn + url" where
  "profile_pic_url us user_id =
     (let (user_var, url_var) =
            (case get_by_id us user_id of
               Some u \<Rightarrow> (Some u, None)
             | None \<Rightarrow> (None, Some static_icon))
      in case user_var of
           None \<Rightarrow> Inl UnboundLocalError
         | Some u \<Rightarrow>
             Inr (if truthy (picture u)
                  then UrlFor ''fbp.get_profile_pic'' [(''user_id'', ArgNat user_id)]
                  else static_icon))"

subsection \<open>Query expressions and Python's \<^verbatim>\<open>and\<close>\<close>

text \<open>
  Comparing a field of the object-relational mapper with a value (\<^verbatim>\<open>Project.name == pname\<close>)
  does not yield a boolean but an expression object, which the query later evaluates on
  each row. The object is modelled by the row predicate it denotes. On a nullable column,
  \<^verbatim>\<open>== None\<close> is the test \<^verbatim>\<open>IS NULL\<close>, so that in both cases a row is selected when its field
  equals the value.
\<close>

datatype 'r expression = Expression "'r \<Rightarrow> bool"

definition field_eq :: "('r \<Rightarrow> 'v) \<Rightarrow> 'v \<Rightarrow> 'r expression" where
  "field_eq f v = Expression (\<lambda>r. f r = v)"

fun holds :: "'r expression \<Rightarrow> 'r \<Rightarrow> bool" where
  "holds (Expression p) r = p r"

text \<open>
  The expression class defines neither \<^verbatim>\<open>__bool__\<close> nor \<^verbatim>\<open>__len__\<close>, so every expression
  object is true, as any Python object is by default. Python's \<^verbatim>\<open>x and y\<close> evaluates \<open>x\<close> and
  yields \<open>y\<close> when \<open>x\<close> is true, \<open>x\<close> otherwise; it cannot be overloaded.
\<close>

definition truthy_expression :: "'r expression \<Rightarrow> bool" where
  "truthy_expression e = True"

definition py_and :: "'r expression \<Rightarrow> 'r expression \<Rightarrow> 'r expression" where
  "py_and x y = (if truthy_expression x then y else x)"

text \<open>
  A table is the list of its rows in the order the store returns them.
  \<^verbatim>\<open>Model.get_or_none(expr)\<close> is the first row the expression selects,
  \<^verbatim>\<open>Model.select().where(expr)\<close> all of them.
\<close>

definition get_or_none :: "'r list \<Rightarrow> 'r expression \<Rightarrow> 'r option" where
  "get_or_none rows e = find (holds e) rows"

definition select_where :: "'r list \<Rightarrow> 'r expression \<Rightarrow> 'r list" where
  "select_where rows e = filter (holds e) rows"

text \<open>\<^verbatim>\<open>fn.MAX(column)\<close> with \<^verbatim>\<open>.scalar()\<close>: the greatest value that is not NULL, if any.\<close>

definition sql_max :: "'a::linorder option list \<Rightarrow> 'a option" where
  "sql_max vs =
     (case List.map_filter (\<lambda>v. v) vs of [] \<Rightarrow> None | x # xs \<Rightarrow> Some (fold max xs x))"

subsection \<open>Package metadata: \<^verbatim>\<open>project_info\<close>, \<^verbatim>\<open>latest_project_version\<close>\<close>

text \<open>\<^verbatim>\<open>latest_project_version\<close> (lines 358-364).\<close>

definition latest_project_version :: "project list \<Rightarrow> string \<Rightarrow> string option" where
  "latest_project_version ps project_name =
     sql_max (map p_version (select_where ps (field_eq p_name project_name)))"

text \<open>
  The Project lookup of \<^verbatim>\<open>project_info\<close> (line 317); the handlers \<^verbatim>\<open>project\<close>,
  \<^verbatim>\<open>project_history\<close> and \<^verbatim>\<open>project_files\<close> make the same call (lines 373, 392, 416).
\<close>

definition project_lookup :: "project list \<Rightarrow> string \<Rightarrow> string option \<Rightarrow> project option" where
  "project_lookup ps pname version =
     get_or_none ps (py_and (field_eq p_name pname) (field_eq p_version version))"

text \<open>The Ring lookup of \<^verbatim>\<open>project_info\<close> (lines 318-321).\<close>

definition latest_ring_lookup :: "ring list \<Rightarrow> string \<Rightarrow> ring option" where
  "latest_ring_lookup rs pname =
     (let latest_ring_dt = sql_max (map upload_at (select_where rs (field_eq r_name pname)))
      in get_or_none rs (py_and (field_eq r_name pname) (field_eq upload_at latest_ring_dt)))"

text \<open>The selection of Rings in \<^verbatim>\<open>project_files\<close> (line 422).\<close>

definition project_files_rings :: "ring list \<Rightarrow> string \<Rightarrow> string option \<Rightarrow> ring list" where
  "project_files_rings rs project_name version =
     select_where rs (py_and (field_eq r_name project_name) (field_eq r_version version))"

text \<open>\<^verbatim>\<open>if cond: info[key] = value\<close>.\<close>

definition set_if :: "bool \<Rightarrow> string \<Rightarrow> pyval \<Rightarrow> (string \<rightharpoonup> pyval) \<Rightarrow> (string \<rightharpoonup> pyval)" where
  "set_if c k v info = (if c then info(k \<mapsto> v) else info)"

text \<open>The construction of the map in \<^verbatim>\<open>project_info\<close> (lines 326-353), statement by statement.\<close>

definition info_of :: "string \<Rightarrow> project \<Rightarrow> ring option \<Rightarrow> (string \<rightharpoonup> pyval)" where
  "info_of pname pj ring =
     (let info = [''name'' \<mapsto> PyStr pname];
          info = info(''version'' \<mapsto> of_text (p_version pj));
          info = set_if (truthy (description pj)) ''description'' (of_text (description pj)) info;
          info = set_if (truthy (description_content_type pj)) ''description_content_type''
                   (of_text (description_content_type pj)) info;
          info = set_if (truthy (home_page pj)) ''home_page'' (of_text (home_page pj)) info;
          info = set_if (truthy (p_keywords pj)) ''keywords'' (of_text (p_keywords pj)) info;
          info = set_if (truthy (license pj)) ''license'' (of_text (license pj)) info;
          info = (case ring of
                    None \<Rightarrow> info
                  | Some r \<Rightarrow>
                      (let info = set_if (truthy (author r)) ''author'' (of_text (author r)) info;
                           info = set_if (truthy (author_email r)) ''author_email''
                                    (of_text (author_email r)) info;
                           info = set_if (truthy (requires_mojo r)) ''requires_mojo''
                                    (of_text (requires_mojo r)) info
                       in info));
          info = set_if (truthy (maintainer pj)) ''maintainer'' (of_text (maintainer pj)) info;
          info = set_if (truthy (maintainer_email pj)) ''maintainer_email''
                   (of_text (maintainer_email pj)) info;
          info = set_if (truthy (summary pj)) ''summary'' (of_text (summary pj)) info;
          info = info(''create_at'' \<mapsto> of_datetime (create_at pj));
          info = info(''last_modified'' \<mapsto> of_datetime (last_modified pj))
      in info)"

text \<open>
  \<^verbatim>\<open>project_info\<close> (lines 316-355); the result \<open>None\<close> is Python's \<^verbatim>\<open>None\<close>. The argument
  \<open>version\<close> is optional because the handlers pass the result of
  \<^verbatim>\<open>latest_project_version\<close>, which is \<^verbatim>\<open>None\<close> when no project has the name.
\<close>

definition project_info :: "state \<Rightarrow> string \<Rightarrow> string option \<Rightarrow> (string \<rightharpoonup> pyval) option" where
  "project_info st pname version =
     (let pj = project_lookup (projects st) pname version;
          ring = latest_ring_lookup (rings st) pname
      in case pj of None \<Rightarrow> None | Some p \<Rightarrow> Some (info_of pname p ring))"

text \<open>The optional metadata keys of the map.\<close>

definition optional_keys :: "string list" where
  "optional_keys =
     [''description'', ''description_content_type'', ''home_page'', ''keywords'', ''license'',
      ''author'', ''author_email'', ''requires_mojo'', ''maintainer'', ''maintainer_email'',
      ''summary'']"

subsection \<open>Ring download: \<^verbatim>\<open>ring_file\<close>, method GET\<close>

text \<open>The two Ring lookups of the GET branch (lines 452-456 and 458).\<close>

definition ring_lookup_platform ::
  "ring list \<Rightarrow> string \<Rightarrow> string option \<Rightarrow> string \<Rightarrow> ring option" where
  "ring_lookup_platform rs name version plat =
     get_or_none rs
       (py_and (py_and (field_eq r_name name) (field_eq r_version version))
               (field_eq platform (Some plat)))"

definition ring_lookup :: "ring list \<Rightarrow> string \<Rightarrow> string option \<Rightarrow> ring option" where
  "ring_lookup rs name version =
     get_or_none rs (py_and (field_eq r_name name) (field_eq r_version version))"

definition show_opt :: "string option \<Rightarrow> string" where
  "show_opt v = (case v of None \<Rightarrow> ''None'' | Some s \<Rightarrow> s)"

text \<open>
  \<^verbatim>\<open>ring_file\<close> for GET (lines 446-468). The route passes \<open>version\<close> and \<open>platform\<close> as
  strings, empty by default. The response names the file to send; whether it exists is
  left to \<^verbatim>\<open>send_from_directory\<close>.
\<close>

definition ring_file_get :: "state \<Rightarrow> string \<Rightarrow> string \<Rightarrow> string \<Rightarrow> response" where
  "ring_file_get st name version plat =
     (let version = (if version = [] then latest_project_version (projects st) name
                     else Some version);
          ring = (if plat \<noteq> [] then ring_lookup_platform (rings st) name version plat
                  else ring_lookup (rings st) name version)
      in case ring of
           None \<Rightarrow>
             Abort 404 (Some (''Ring not found: '' @ name @ '', version: '' @ show_opt version
                              @ '', platform: '' @ plat))
         | Some r \<Rightarrow>
             (case file_name r of
                None \<Rightarrow> Abort 404 (Some ''Ring file not uploaded.'')
              | Some f \<Rightarrow>
                  if f \<noteq> [] then SendFromDirectory RINGS_PATH f
                  else Abort 404 (Some ''Ring file not uploaded.'')))"

subsection \<open>Session, flashed messages, saving a user\<close>

datatype http_method = GET | POST

text \<open>\<^verbatim>\<open>login_user(user)\<close> puts the user's id into the session.\<close>

definition login_user :: "user \<Rightarrow> state \<Rightarrow> state" where
  "login_user u st = st\<lparr>session := Some (uid u)\<rparr>"

definition flash :: "string \<Rightarrow> state \<Rightarrow> state" where
  "flash m st = st\<lparr>flashes := flashes st @ [m]\<rparr>"

text \<open>\<^verbatim>\<open>next_url or url_for(...)\<close>: the first operand when it is true, else the second.\<close>

definition next_or :: "string option \<Rightarrow> url \<Rightarrow> url" where
  "next_or next_url d =
     (case next_url of None \<Rightarrow> d | Some n \<Rightarrow> if n \<noteq> [] then UrlPath n else d)"

text \<open>
  Modelled from the spec: the uniqueness constraints of the User table, declared in
  \<^verbatim>\<open>models.py\<close>, which is not part of the sources (``User: unique id, unique email, unique
  username''). \<^verbatim>\<open>user.save()\<close> on a stored user writes all its fields to the row with its
  id; the store refuses the write with \<^verbatim>\<open>IntegrityError\<close> (here \<open>None\<close>) and changes nothing
  when another row has the same username or email.
\<close>

definition save_user :: "user list \<Rightarrow> user \<Rightarrow> user list option" where
  "save_user us u =
     (if \<exists>v \<in> set us. uid v \<noteq> uid u \<and> (username v = username u \<or> email v = email u)
      then None
      else Some (map (\<lambda>v. if uid v = uid u then u else v) us))"

text \<open>The invariant those constraints maintain.\<close>

definition unique_users :: "user list \<Rightarrow> bool" where
  "unique_users us \<longleftrightarrow>
     distinct (map uid us) \<and> distinct (map username us) \<and> distinct (map email us)"

subsection \<open>Authentication: \<^verbatim>\<open>login\<close>, \<^verbatim>\<open>reset_password\<close>\<close>

text \<open>
  \<^verbatim>\<open>login\<close> (lines 98-126). The form values and the query argument \<^verbatim>\<open>next\<close> are optional
  strings, \<open>None\<close> when the request does not carry them. \<^verbatim>\<open>verify_password\<close> of \<^verbatim>\<open>utils.py\<close>
  is a parameter. A model instance is always true, so \<^verbatim>\<open>if user:\<close> tests that a row was
  found.
\<close>

definition login ::
  "(string option \<Rightarrow> string \<Rightarrow> bool) \<Rightarrow> state \<Rightarrow> http_method \<Rightarrow> string option
     \<Rightarrow> string option \<Rightarrow> string option \<Rightarrow> response \<times> state" where
  "login verify_password st method email_arg password_arg next_url =
     (case method of
        GET \<Rightarrow> (Render ''login.html'' [(''next_url'', CtxText next_url)], st)
      | POST \<Rightarrow>
          (case get_or_none (users st) (field_eq (\<lambda>u. Some (email u)) email_arg) of
             Some user \<Rightarrow>
               (case (if truthy (password user) then password user else None) of
                  None \<Rightarrow>
                    (Redirect (next_or next_url (UrlFor ''mbp.reset_password'' [])),
                     flash ''Need to reset password.'' (login_user user st))
                | Some hashed_password \<Rightarrow>
                    if verify_password password_arg hashed_password
                    then (Redirect (next_or next_url (UrlFor ''mbp.index'' [])),
                          flash ''Logged in successfully.'' (login_user user st))
                    else (Redirect (UrlFor ''mbp.login''
                                      [(''next'', case next_url of None \<Rightarrow> ArgNone
                                                  | Some n \<Rightarrow> ArgStr n)]),
                          flash ''Wrong password.'' st))
           | None \<Rightarrow> (Redirect (UrlFor ''mbp.login'' []), flash ''Email incorrect.'' st)))"

text \<open>
  \<^verbatim>\<open>reset_password\<close> (lines 285-307); \<^verbatim>\<open>hash_password\<close> of \<^verbatim>\<open>utils.py\<close> is a parameter. The
  \<^verbatim>\<open>assert\<close> statement is executed (the interpreter runs without \<^verbatim>\<open>-O\<close>).
\<close>

definition reset_password ::
  "(string option \<Rightarrow> string) \<Rightarrow> state \<Rightarrow> http_method \<Rightarrow> string option \<Rightarrow> string option
     \<Rightarrow> response \<times> state" where
  "reset_password hash_password st method new_password confirm_password =
     (case current_user st of
        None \<Rightarrow> (Abort 401 None, st)
      | Some cu \<Rightarrow>
          (case method of
             GET \<Rightarrow> (Render ''reset_password.html'' [(''avatar'', CtxUrl (avatar_url st))], st)
           | POST \<Rightarrow>
               if new_password \<noteq> confirm_password
               then (Abort 403 (Some ''New password is not equal to confirm password.''), st)
               else (case save_user (users st)
                            (cu\<lparr>password := Some (hash_password new_password)\<rparr>) of
                       None \<Rightarrow> (Unhandled IntegrityError, st)
                     | Some us \<Rightarrow>
                         (Redirect (UrlFor ''mbp.settings'' []),
                          flash ''New password set!'' (st\<lparr>users := us\<rparr>)))))"

subsection \<open>Profiles: \<^verbatim>\<open>profile\<close>, \<^verbatim>\<open>edit_profile\<close>\<close>

text \<open>\<^verbatim>\<open>Profile.get(Profile.user == user)\<close>; \<open>None\<close> stands for \<^verbatim>\<open>DoesNotExist\<close>.\<close>

definition get_profile :: "profile list \<Rightarrow> user \<Rightarrow> profile option" where
  "get_profile pfs u = get_or_none pfs (field_eq pf_user (uid u))"

text \<open>\<^verbatim>\<open>pf.save()\<close>: writes the fields to the row with the profile's id.\<close>

definition save_profile :: "profile list \<Rightarrow> profile \<Rightarrow> profile list" where
  "save_profile pfs pf = map (\<lambda>p. if pf_id p = pf_id pf then pf else p) pfs"

text \<open>
  \<^verbatim>\<open>current_user == user\<close>: two model instances are equal when they have the same primary
  key; the anonymous user equals no user.
\<close>

definition is_current_user :: "state \<Rightarrow> user \<Rightarrow> bool" where
  "is_current_user st u = (case current_user st of None \<Rightarrow> False | Some cu \<Rightarrow> uid cu = uid u)"

definition private_message :: string where
  "private_message = ''User'' @ [CHR 0x27] @ ''s profile is private.''"

text \<open>
  \<^verbatim>\<open>profile\<close> (lines 179-195). The description given to \<^verbatim>\<open>abort\<close> is part of the response:
  it is the text of the error page.
\<close>

definition profile :: "state \<Rightarrow> nat \<Rightarrow> response" where
  "profile st user_id =
     (case get_by_id (users st) user_id of
        None \<Rightarrow> Abort 404 None
      | Some user \<Rightarrow>
          (case get_profile (profiles st) user of
             None \<Rightarrow> Unhandled DoesNotExist
           | Some pf \<Rightarrow>
               if is_public pf \<or> is_current_user st user
               then (case profile_pic_url (users st) user_id of
                       Inl e \<Rightarrow> Unhandled e
                     | Inr pic \<Rightarrow>
                         Render ''profile.html''
                           [(''profile_pic_url'', CtxUrl pic),
                            (''avatar'', CtxUrl (avatar_url st)),
                            (''profile'', CtxProfile pf)])
               else Abort 404 (Some private_message)))"

text \<open>
  \<^verbatim>\<open>edit_profile\<close> (lines 247-275), on a request that carries the four form fields. Only
  \<^verbatim>\<open>IntegrityError\<close> is caught around the first \<^verbatim>\<open>save\<close>; the handler then goes on.
\<close>

definition edit_profile ::
  "state \<Rightarrow> http_method \<Rightarrow> string \<Rightarrow> string \<Rightarrow> string \<Rightarrow> string \<Rightarrow> response \<times> state" where
  "edit_profile st method new_username new_education new_experience new_bio =
     (case current_user st of
        None \<Rightarrow> (Abort 401 None, st)
      | Some cu \<Rightarrow>
          (case method of
             GET \<Rightarrow>
               (case get_profile (profiles st) cu of
                  None \<Rightarrow> (Unhandled DoesNotExist, st)
                | Some pf \<Rightarrow>
                    (Render ''edit_profile.html''
                       [(''avatar'', CtxUrl (avatar_url st)), (''profile'', CtxProfile pf)], st))
           | POST \<Rightarrow>
               (let cu = cu\<lparr>username := new_username\<rparr>;
                    st = (case save_user (users st) cu of
                            None \<Rightarrow> flash ''New username conflicts with existing account.'' st
                          | Some us \<Rightarrow> st\<lparr>users := us\<rparr>)
                in case get_profile (profiles st) cu of
                     None \<Rightarrow> (Unhandled DoesNotExist, st)
                   | Some pf \<Rightarrow>
                       (let pf = pf\<lparr>education := new_education, experience := new_experience,
                                    bio := new_bio\<rparr>;
                            st = st\<lparr>profiles := save_profile (profiles st) pf\<rparr>;
                            st = flash ''Edit Successful!'' st
                        in (Redirect (UrlFor ''mbp.profile'' [(''user_id'', ArgNat (uid cu))]),
                            st)))))"

subsection \<open>Search\<close>











subsection \<open>Avatars: \<^verbatim>\<open>profile_pic_upload\<close>, \<^verbatim>\<open>get_profile_pic\<close>\<close>

text \<open>
  An uploaded file (\<^verbatim>\<open>FileStorage\<close>): the name the client gave and the bytes.
\<close>

record upload =
  filename :: string
  body :: content

text \<open>
  The state holds, for each upload directory, the files that lie directly in it, by name.
  A relative name is plain when it names such a file: it is not empty, has no path
  separator and no NUL byte, is neither \<open>.\<close> nor \<open>..\<close>, and is at most 255 bytes long. For
  a plain name, \<^verbatim>\<open>PIC_PATH / name\<close> is the file of that name in the picture directory, its
  parent is \<^verbatim>\<open>PIC_PATH\<close>, and writing it succeeds.
\<close>

definition plain_name :: "string \<Rightarrow> bool" where
  "plain_name n \<longleftrightarrow>
     n \<noteq> [] \<and> CHR ''/'' \<notin> set n \<and> CHR 0x00 \<notin> set n \<and> n \<noteq> ''.'' \<and> n \<noteq> ''..''
     \<and> length n \<le> 255"

text \<open>
  For any other name the path leaves the flat directory (\<open>sub/alice.png\<close>,
  \<open>../alice.png\<close>), and what happens depends on the file system around it, which the state
  does not hold. That behaviour is a parameter: \<open>save_outside dir name bytes\<close> is
  \<^verbatim>\<open>file.save(PIC_PATH / name)\<close>, which raises or returns the picture directory as it is
  afterwards; \<open>is_file_outside name\<close> is \<^verbatim>\<open>(PIC_PATH / name).is_file()\<close>; \<open>split_outside name\<close>
  is the pair of \<^verbatim>\<open>str((PIC_PATH / name).parent)\<close> and \<^verbatim>\<open>(PIC_PATH / name).name\<close>.
\<close>

record outside =
  save_outside :: "(string \<rightharpoonup> content) \<Rightarrow> string \<Rightarrow> content \<Rightarrow> exn + (string \<rightharpoonup> content)"
  is_file_outside :: "string \<Rightarrow> bool"
  split_outside :: "string \<Rightarrow> string \<times> string"

text \<open>\<^verbatim>\<open>file.save(PIC_PATH / name)\<close>.\<close>

definition file_save ::
  "outside \<Rightarrow> (string \<rightharpoonup> content) \<Rightarrow> string \<Rightarrow> content \<Rightarrow> exn + (string \<rightharpoonup> content)" where
  "file_save out dir n c =
     (if plain_name n then Inr (dir(n \<mapsto> c)) else save_outside out dir n c)"

text \<open>
  \<^verbatim>\<open>profile_pic_upload\<close> (lines 198-224). The library functions \<^verbatim>\<open>secure_filename\<close> and
  \<^verbatim>\<open>Path(...).suffix\<close> are parameters. The truth value of a \<^verbatim>\<open>FileStorage\<close> is that of its
  file name. The file is written before the picture is recorded and the user saved: when
  the write raises, nothing is recorded.
\<close>

definition profile_pic_upload ::
  "(string \<Rightarrow> string) \<Rightarrow> (string \<Rightarrow> string) \<Rightarrow> outside \<Rightarrow> state \<Rightarrow> (string \<rightharpoonup> upload)
     \<Rightarrow> response \<times> state" where
  "profile_pic_upload secure_filename suffix out st files =
     (case current_user st of
        None \<Rightarrow> (Abort 401 None, st)
      | Some cu \<Rightarrow>
          (case files ''file'' of
             None \<Rightarrow> (Abort 400 (Some ''No file provided.''), st)
           | Some file \<Rightarrow>
               if filename file = [] then (Abort 400 (Some ''Empty filename.''), st)
               else if filename file \<noteq> [] then
                 (let fname = secure_filename (filename file);
                      filename_suffix = suffix fname;
                      stored = username cu @ filename_suffix
                  in case file_save out (pic_dir st) stored (body file) of
                       Inl e \<Rightarrow> (Unhandled e, st)
                     | Inr dir \<Rightarrow>
                         (let st = st\<lparr>pic_dir := dir\<rparr>
                          in case save_user (users st) (cu\<lparr>picture := Some stored\<rparr>) of
                               None \<Rightarrow> (Unhandled IntegrityError, st)
                             | Some us \<Rightarrow>
                                 (JsonMessage ''Profile picture saved successfully.'',
                                  st\<lparr>users := us\<rparr>)))
               else (Abort 400 (Some ''Invalid file.''), st)))"

text \<open>The state after a request that uploads \<open>file\<close> as avatar.\<close>

definition after_upload ::
  "(string \<Rightarrow> string) \<Rightarrow> (string \<Rightarrow> string) \<Rightarrow> outside \<Rightarrow> state \<Rightarrow> upload \<Rightarrow> state" where
  "after_upload secure_filename suffix out st file =
     snd (profile_pic_upload secure_filename suffix out st [''file'' \<mapsto> file])"

definition is_file :: "(string \<rightharpoonup> content) \<Rightarrow> string \<Rightarrow> bool" where
  "is_file dir n \<longleftrightarrow> dir n \<noteq> None"

text \<open>
  \<^verbatim>\<open>get_profile_pic\<close> (lines 227-244); \<open>user_id\<close> is \<open>None\<close> on the route without an id. The
  file is sent from the parent of \<^verbatim>\<open>PIC_PATH / user.picture\<close>: from \<^verbatim>\<open>PIC_PATH\<close> when the
  stored name is plain, from another directory otherwise.
\<close>

definition get_profile_pic :: "outside \<Rightarrow> state \<Rightarrow> nat option \<Rightarrow> response" where
  "get_profile_pic out st user_id =
     (case (case user_id of
              None \<Rightarrow>
                (case current_user st of None \<Rightarrow> Inl (Abort 401 None) | Some u \<Rightarrow> Inr u)
            | Some i \<Rightarrow>
                (case get_by_id (users st) i of
                   None \<Rightarrow> Inl (Abort 404 (Some ''User not found.''))
                 | Some u \<Rightarrow> Inr u)) of
        Inl r \<Rightarrow> r
      | Inr user \<Rightarrow>
          (case (if truthy (picture user) then picture user else None) of
             Some p \<Rightarrow>
               if plain_name p then
                 (if is_file (pic_dir st) p then SendFromDirectory PIC_PATH p
                  else Abort 404 (Some ''Profile picture not found.''))
               else
                 (if is_file_outside out p
                  then SendFromDirectory (OtherDirectory (fst (split_outside out p)))
                         (snd (split_outside out p))
                  else Abort 404 (Some ''Profile picture not found.''))
           | None \<Rightarrow> Abort 404 (Some ''Profile picture not found.'')))"

text \<open>
  The bytes a response of \<^verbatim>\<open>send_from_directory\<close> carries when the file lies directly in one
  of the two upload directories: the content of the named file.
\<close>

definition served :: "state \<Rightarrow> response \<Rightarrow> content option" where
  "served st r =
     (case r of
        SendFromDirectory PIC_PATH n \<Rightarrow> pic_dir st n
      | SendFromDirectory RINGS_PATH n \<Rightarrow> rings_dir st n
      | _ \<Rightarrow> None)"

text \<open>
  For the examples: the suffix of a file name without path separator as \<^verbatim>\<open>pathlib\<close>
  computes it, the part from the last dot on when that dot is neither the first nor the
  last character.
\<close>

fun rfind_dot :: "string \<Rightarrow> nat option" where
  "rfind_dot [] = None"
| "rfind_dot (c # cs) =
     (case rfind_dot cs of
        Some i \<Rightarrow> Some (Suc i)
      | None \<Rightarrow> if c = CHR ''.'' then Some 0 else None)"

definition path_suffix :: "string \<Rightarrow> string" where
  "path_suffix name =
     (case rfind_dot name of
        None \<Rightarrow> []
      | Some i \<Rightarrow> if 0 < i \<and> i < length name - 1 then drop i name else [])"

subsection \<open>Ring upload: \<^verbatim>\<open>ring_file\<close>, method POST\<close>

text \<open>
  The rings directory is the map from the file name given to \<^verbatim>\<open>RINGS_PATH / name\<close> to the
  content of that file.
\<close>







subsection \<open>An example store\<close>

definition project_a1 :: project where
  "project_a1 =
     \<lparr>p_name = ''a'', p_version = Some ''1'', description = None,
      description_content_type = None, home_page = None, p_keywords = None,
      license = Some ''MIT'', maintainer = None, maintainer_email = None, summary = None,
      create_at = Some 10, last_modified = Some 10\<rparr>"

definition project_e :: project where
  "project_e = project_a1\<lparr>p_name := ''e'', p_version := Some [], license := None\<rparr>"

definition ring_a1 :: ring where
  "ring_a1 =
     \<lparr>r_name = ''a'', r_version = Some ''1'', platform = Some ''linux'', author = Some ''bob'',
      author_email = None, requires_dist = None, requires_mojo = Some [],
      file_name = Some ''a-1.ring'', sha256 = None, upload_at = Some 5\<rparr>"

definition alice :: user where
  "alice = \<lparr>uid = 1, email = ''a@x.com'', username = ''alice'', password = Some ''h1'',
             picture = None\<rparr>"

definition bob :: user where
  "bob = \<lparr>uid = 2, email = ''b@x.com'', username = ''bob'', password = None, picture = None\<rparr>"

definition alice_profile :: profile where
  "alice_profile = \<lparr>pf_id = 1, pf_user = 1, is_public = False, education = [], experience = [],
                     bio = []\<rparr>"

definition bob_profile :: profile where
  "bob_profile = \<lparr>pf_id = 2, pf_user = 2, is_public = True, education = [], experience = [],
                   bio = []\<rparr>"

definition example_store :: state where
  "example_store =
     \<lparr>users = [alice, bob], profiles = [alice_profile, bob_profile],
      projects = [project_a1, project_e], rings = [ring_a1],
      pic_dir = Map.empty, rings_dir = Map.empty, session = None, flashes = []\<rparr>"

definition example_verify :: "string option \<Rightarrow> string \<Rightarrow> bool" where
  "example_verify pw h \<longleftrightarrow> pw = Some ''pw1'' \<and> h = ''h1''"

definition example_hash :: "string option \<Rightarrow> string" where
  "example_hash pw = ''hash of '' @ show_opt pw"

definition alice_session :: state where
  "alice_session = example_store\<lparr>session := Some 1\<rparr>"

definition png_file :: upload where
  "png_file = \<lparr>filename = ''a.png'', body = ''first bytes''\<rparr>"

definition jpg_file :: upload where
  "jpg_file = \<lparr>filename = ''b.jpg'', body = ''second bytes''\<rparr>"










text \<open>
  A file system where every path that leaves the picture directory fails, and a session of
  a user whose username has a path separator.
\<close>

definition no_outside :: outside where
  "no_outside =
     \<lparr>save_outside = (\<lambda>dir n c. Inl (OtherError ''FileNotFoundError'')),
      is_file_outside = (\<lambda>n. False),
      split_outside = (\<lambda>n. ([], n))\<rparr>"

definition slash_session :: state where
  "slash_session =
     example_store\<lparr>users := [alice\<lparr>username := ''sub/alice''\<rparr>, bob], session := Some 1\<rparr>"

section \<open>Properties\<close>

lemma get_by_id_None: "user_id \<notin> uid ` set us \<Longrightarrow> get_by_id us user_id = None"
  by (auto simp: get_by_id_def find_None_iff)

text \<open>
  C10. For every \<open>user_id\<close> with no User record, \<open>profile_pic_url\<close> does not return the
  default-asset URL (nor any URL): the handler of the failed lookup binds the fallback URL,
  but the function then reads the variable \<open>user\<close>, which was never bound, and the call
  ends in the unhandled \<open>UnboundLocalError\<close>.
\<close>

theorem profile_pic_url_unbound:
  assumes "user_id \<notin> uid ` set us"
  shows "profile_pic_url us user_id = Inl UnboundLocalError
       \<and> profile_pic_url us user_id \<noteq> Inr static_icon"
  using get_by_id_None [OF assms] by (simp add: profile_pic_url_def)

theorem profile_pic_url_unbound_witness:
  "2 \<notin> uid ` set [\<lparr>uid = 1, email = ''a@x.com'', username = ''alice'',
                       password = None, picture = None\<rparr>]
   \<and> (profile_pic_url [\<lparr>uid = 1, email = ''a@x.com'', username = ''alice'',
                          password = None, picture = None\<rparr>] 2 = Inl UnboundLocalError
      \<and> profile_pic_url [\<lparr>uid = 1, email = ''a@x.com'', username = ''alice'',
                          password = None, picture = None\<rparr>] 2 \<noteq> Inr static_icon)"
proof
  show h: "2 \<notin> uid ` set [\<lparr>uid = 1, email = ''a@x.com'', username = ''alice'',
                       password = None, picture = None\<rparr>]"
    by simp
  show "profile_pic_url [\<lparr>uid = 1, email = ''a@x.com'', username = ''alice'',
                          password = None, picture = None\<rparr>] 2 = Inl UnboundLocalError
      \<and> profile_pic_url [\<lparr>uid = 1, email = ''a@x.com'', username = ''alice'',
                          password = None, picture = None\<rparr>] 2 \<noteq> Inr static_icon"
    by (rule profile_pic_url_unbound [OF h])
qed

subsection \<open>Lookups written with \<^verbatim>\<open>and\<close>\<close>

lemma py_and_right: "py_and x y = y"
  by (simp add: py_and_def truthy_expression_def)

lemma get_or_none_exists: "get_or_none rows e \<noteq> None \<longleftrightarrow> (\<exists>r \<in> set rows. holds e r)"
  by (auto simp: get_or_none_def find_None_iff)

lemma project_info_None_iff:
  "project_info st pname version = None \<longleftrightarrow> project_lookup (projects st) pname version = None"
  by (simp add: project_info_def split: option.splits)

text \<open>
  C1, as the code has it. Every lookup written with \<^verbatim>\<open>and\<close> between field comparisons
  equals the lookup on the last comparison alone: the version for the Project lookup of
  \<open>project_info\<close> and of the three project handlers, for the two-field Ring lookup of
  \<open>ring_file\<close> and for the Ring selection of \<open>project_files\<close>, the platform for the
  three-field Ring lookup. The name has no effect. In particular the Project lookup of
  \<open>project_info\<close> succeeds exactly when some Project has the given version, under whatever
  name.
\<close>

theorem lookups_filter_on_last_comparison:
  "project_lookup ps pname version = get_or_none ps (field_eq p_version version)
   \<and> ring_lookup rs name version = get_or_none rs (field_eq r_version version)
   \<and> ring_lookup_platform rs name version plat = get_or_none rs (field_eq platform (Some plat))
   \<and> project_files_rings rs name version = select_where rs (field_eq r_version version)
   \<and> (project_info st pname version \<noteq> None
        \<longleftrightarrow> (\<exists>pj \<in> set (projects st). p_version pj = version))"
proof -
  have "project_lookup (projects st) pname version \<noteq> None
        \<longleftrightarrow> (\<exists>pj \<in> set (projects st). p_version pj = version)"
    unfolding project_lookup_def py_and_right get_or_none_exists by (simp add: field_eq_def)
  then show ?thesis
    by (simp add: project_info_None_iff project_lookup_def ring_lookup_def
        ring_lookup_platform_def project_files_rings_def py_and_right)
qed

text \<open>
  C1 as stated fails. In the example store the project \<open>a\<close> exists in version \<open>1\<close> only:
  the lookup of \<open>(a, 2)\<close> finds nothing, though the filter on the name alone finds the
  project, and \<open>project_info\<close> returns nothing for it; the lookup of \<open>(zzz, 1)\<close> succeeds,
  though no project has the name \<open>zzz\<close>.
\<close>

theorem lookup_first_field_counterexample:
  "get_or_none (projects example_store) (field_eq p_name ''a'') = Some project_a1
   \<and> project_lookup (projects example_store) ''a'' (Some ''2'') = None
   \<and> project_info example_store ''a'' (Some ''2'') = None
   \<and> get_or_none (projects example_store) (field_eq p_name ''zzz'') = None
   \<and> project_lookup (projects example_store) ''zzz'' (Some ''1'') = Some project_a1"
  by (simp add: project_info_def project_lookup_def py_and_right get_or_none_def field_eq_def
      example_store_def project_a1_def project_e_def)

subsection \<open>The map of \<^verbatim>\<open>project_info\<close>\<close>

lemma truthy_of_text: "truthy v \<Longrightarrow> py_truthy (of_text v)"
  by (cases v) (simp_all add: truthy_def of_text_def)

lemma set_if_apply: "set_if c k v info k' = (if c \<and> k' = k then Some v else info k')"
  by (simp add: set_if_def)

lemma info_of_project_values:
  "info_of pname pj ring ''description'' =
     (if truthy (description pj) then Some (of_text (description pj)) else None)"
  "info_of pname pj ring ''description_content_type'' =
     (if truthy (description_content_type pj)
      then Some (of_text (description_content_type pj)) else None)"
  "info_of pname pj ring ''home_page'' =
     (if truthy (home_page pj) then Some (of_text (home_page pj)) else None)"
  "info_of pname pj ring ''keywords'' =
     (if truthy (p_keywords pj) then Some (of_text (p_keywords pj)) else None)"
  "info_of pname pj ring ''license'' =
     (if truthy (license pj) then Some (of_text (license pj)) else None)"
  "info_of pname pj ring ''maintainer'' =
     (if truthy (maintainer pj) then Some (of_text (maintainer pj)) else None)"
  "info_of pname pj ring ''maintainer_email'' =
     (if truthy (maintainer_email pj) then Some (of_text (maintainer_email pj)) else None)"
  "info_of pname pj ring ''summary'' =
     (if truthy (summary pj) then Some (of_text (summary pj)) else None)"
  by (cases ring; simp add: info_of_def set_if_apply Let_def)+

lemma info_of_ring_values:
  "info_of pname pj ring ''author'' =
     (case ring of None \<Rightarrow> None
      | Some r \<Rightarrow> if truthy (author r) then Some (of_text (author r)) else None)"
  "info_of pname pj ring ''author_email'' =
     (case ring of None \<Rightarrow> None
      | Some r \<Rightarrow> if truthy (author_email r) then Some (of_text (author_email r)) else None)"
  "info_of pname pj ring ''requires_mojo'' =
     (case ring of None \<Rightarrow> None
      | Some r \<Rightarrow> if truthy (requires_mojo r) then Some (of_text (requires_mojo r)) else None)"
  by (cases ring; simp add: info_of_def set_if_apply Let_def)+

lemma info_of_fixed_values:
  "info_of pname pj ring ''name'' = Some (PyStr pname)"
  "info_of pname pj ring ''version'' = Some (of_text (p_version pj))"
  "info_of pname pj ring ''create_at'' = Some (of_datetime (create_at pj))"
  "info_of pname pj ring ''last_modified'' = Some (of_datetime (last_modified pj))"
  by (cases ring; simp add: info_of_def set_if_apply Let_def)+

lemma info_of_optional_truthy:
  assumes "k \<in> set optional_keys" and "info_of pname pj ring k = Some v"
  shows "py_truthy v"
  using assms unfolding optional_keys_def
  by (auto simp: info_of_project_values info_of_ring_values truthy_of_text
      split: if_splits option.splits)

text \<open>
  C4, as the code has it. When \<open>project_info\<close> returns a map, the map holds the key of
  each of the eight optional Project fields exactly when that field of the Project found is
  non-empty, and the key of each of the three Ring fields (author, author_email,
  requires_mojo) exactly when the Ring lookup returned a Ring whose field is non-empty; no
  optional key is bound to an empty value. The keys name, version, create_at and
  last_modified are always present, bound to the field as it is, empty or not.
\<close>

theorem project_info_optional_keys:
  assumes "project_info st pname version = Some info"
  shows "\<exists>pj. project_lookup (projects st) pname version = Some pj
    \<and> (info ''description'' \<noteq> None \<longleftrightarrow> truthy (description pj))
    \<and> (info ''description_content_type'' \<noteq> None \<longleftrightarrow> truthy (description_content_type pj))
    \<and> (info ''home_page'' \<noteq> None \<longleftrightarrow> truthy (home_page pj))
    \<and> (info ''keywords'' \<noteq> None \<longleftrightarrow> truthy (p_keywords pj))
    \<and> (info ''license'' \<noteq> None \<longleftrightarrow> truthy (license pj))
    \<and> (info ''maintainer'' \<noteq> None \<longleftrightarrow> truthy (maintainer pj))
    \<and> (info ''maintainer_email'' \<noteq> None \<longleftrightarrow> truthy (maintainer_email pj))
    \<and> (info ''summary'' \<noteq> None \<longleftrightarrow> truthy (summary pj))
    \<and> (info ''author'' \<noteq> None
         \<longleftrightarrow> (\<exists>r. latest_ring_lookup (rings st) pname = Some r \<and> truthy (author r)))
    \<and> (info ''author_email'' \<noteq> None
         \<longleftrightarrow> (\<exists>r. latest_ring_lookup (rings st) pname = Some r \<and> truthy (author_email r)))
    \<and> (info ''requires_mojo'' \<noteq> None
         \<longleftrightarrow> (\<exists>r. latest_ring_lookup (rings st) pname = Some r \<and> truthy (requires_mojo r)))
    \<and> (\<forall>k \<in> set optional_keys. \<forall>v. info k = Some v \<longrightarrow> py_truthy v)
    \<and> info ''name'' = Some (PyStr pname)
    \<and> info ''version'' = Some (of_text (p_version pj))
    \<and> info ''create_at'' = Some (of_datetime (create_at pj))
    \<and> info ''last_modified'' = Some (of_datetime (last_modified pj))"
proof -
  from assms obtain pj where pj: "project_lookup (projects st) pname version = Some pj"
    and info: "info = info_of pname pj (latest_ring_lookup (rings st) pname)"
    by (auto simp: project_info_def split: option.splits)
  have opt: "\<forall>k \<in> set optional_keys. \<forall>v.
      info_of pname pj (latest_ring_lookup (rings st) pname) k = Some v \<longrightarrow> py_truthy v"
    by (blast intro: info_of_optional_truthy)
  show ?thesis
    unfolding info
  proof (intro exI [of _ pj] conjI)
    show "project_lookup (projects st) pname version = Some pj" by (rule pj)
  qed (use opt in \<open>simp_all add: info_of_project_values info_of_ring_values
        info_of_fixed_values split: option.splits\<close>)
qed


theorem project_info_optional_keys_witness:
  "project_info example_store ''a'' (Some ''1'') = Some (info_of ''a'' project_a1 (Some ring_a1))
   \<and> info_of ''a'' project_a1 (Some ring_a1) ''license'' \<noteq> None
   \<and> info_of ''a'' project_a1 (Some ring_a1) ''description'' = None
   \<and> info_of ''a'' project_a1 (Some ring_a1) ''author'' \<noteq> None
   \<and> info_of ''a'' project_a1 (Some ring_a1) ''requires_mojo'' = None"
proof -
  have lookup: "project_lookup (projects example_store) ''a'' (Some ''1'') = Some project_a1"
    by (simp add: project_lookup_def py_and_right get_or_none_def field_eq_def
        example_store_def project_a1_def)
  have ring: "latest_ring_lookup (rings example_store) ''a'' = Some ring_a1"
    by (simp add: latest_ring_lookup_def py_and_right get_or_none_def select_where_def
        field_eq_def sql_max_def List.map_filter_simps example_store_def ring_a1_def)
  have h: "project_info example_store ''a'' (Some ''1'')
           = Some (info_of ''a'' project_a1 (Some ring_a1))"
    by (simp add: project_info_def lookup ring)
  have fields: "truthy (license project_a1)" "\<not> truthy (description project_a1)"
    "truthy (author ring_a1)" "\<not> truthy (requires_mojo ring_a1)"
    by (simp_all add: truthy_def project_a1_def ring_a1_def)
  from project_info_optional_keys [OF h] lookup ring fields
  have "info_of ''a'' project_a1 (Some ring_a1) ''license'' \<noteq> None
   \<and> info_of ''a'' project_a1 (Some ring_a1) ''description'' = None
   \<and> info_of ''a'' project_a1 (Some ring_a1) ''author'' \<noteq> None
   \<and> info_of ''a'' project_a1 (Some ring_a1) ''requires_mojo'' = None"
    by auto
  with h show ?thesis by (rule conjI)
qed

text \<open>
  C4 as stated fails on its last clause: the key \<open>version\<close> is set without a test, so for
  a Project whose version is the empty string the map binds \<open>version\<close> to the empty string.
\<close>

theorem project_info_empty_version_counterexample:
  "map_option (\<lambda>info. info ''version'') (project_info example_store ''e'' (Some []))
     = Some (Some (PyStr []))
   \<and> \<not> py_truthy (PyStr [])"
  by (simp add: project_info_def project_lookup_def py_and_right get_or_none_def field_eq_def
      example_store_def project_a1_def project_e_def info_of_fixed_values of_text_def)

subsection \<open>Helper facts on lookups and saving\<close>

lemma find_map_replace:
  assumes "find P xs = Some x" and "Q x" and "P x'"
  shows "find P (map (\<lambda>y. if Q y then x' else y) xs) = Some x'"
  using assms by (induction xs) (auto split: if_splits)

lemma current_user_SomeD:
  assumes "current_user st = Some cu"
  shows "session st = Some (uid cu)" and "get_by_id (users st) (uid cu) = Some cu"
    and "cu \<in> set (users st)"
  using assms
  by (auto simp: current_user_def get_by_id_def find_Some_iff split: option.splits)

lemma save_user_same_keys:
  assumes "unique_users us" and "cu \<in> set us"
    and "uid u = uid cu" and "username u = username cu" and "email u = email cu"
  shows "save_user us u = Some (map (\<lambda>v. if uid v = uid cu then u else v) us)"
proof -
  have "inj_on username (set us)" "inj_on email (set us)"
    using assms(1) by (simp_all add: unique_users_def distinct_map)
  then have "\<not> (\<exists>v \<in> set us. uid v \<noteq> uid u \<and> (username v = username u \<or> email v = email u))"
    using assms(2-5) by (metis inj_onD)
  then show ?thesis by (simp add: save_user_def assms(3))
qed

lemma get_by_id_saved:
  assumes "get_by_id us (uid cu) = Some cu" and "uid u = uid cu"
  shows "get_by_id (map (\<lambda>v. if uid v = uid cu then u else v) us) (uid cu) = Some u"
  using assms unfolding get_by_id_def by (intro find_map_replace) simp_all

lemma profile_pic_url_found:
  "get_by_id us user_id = Some u \<Longrightarrow>
   profile_pic_url us user_id
   = Inr (if truthy (picture u) then UrlFor ''fbp.get_profile_pic'' [(''user_id'', ArgNat user_id)]
          else static_icon)"
  by (simp add: profile_pic_url_def)

lemma holds_Expression: "holds (Expression p) = p"
  by (rule ext) simp

lemma get_profile_find: "get_profile pfs u = find (\<lambda>p. pf_user p = uid u) pfs"
  by (simp add: get_profile_def get_or_none_def field_eq_def holds_Expression)

lemma get_profile_saved:
  assumes "get_profile pfs cu = Some pf" and "pf_id pf' = pf_id pf" and "pf_user pf' = pf_user pf"
  shows "get_profile (save_profile pfs pf') cu = Some pf'"
proof -
  from assms(1) have f: "find (\<lambda>p. pf_user p = uid cu) pfs = Some pf"
    by (simp add: get_profile_find)
  then have "pf_user pf = uid cu" by (auto simp: find_Some_iff)
  with assms(3) have "pf_user pf' = uid cu" by simp
  with f assms(2) have "find (\<lambda>p. pf_user p = uid cu)
      (map (\<lambda>p. if pf_id p = pf_id pf then pf' else p) pfs) = Some pf'"
    by (intro find_map_replace) simp_all
  then show ?thesis
    by (simp add: get_profile_find save_profile_def assms(2))
qed

lemma example_lookups:
  "get_or_none (users example_store) (field_eq (\<lambda>u. Some (email u)) (Some ''a@x.com'')) = Some alice"
  "get_or_none (users example_store) (field_eq (\<lambda>u. Some (email u)) (Some ''b@x.com'')) = Some bob"
  "get_by_id (users example_store) 1 = Some alice"
  "get_by_id (users example_store) 2 = Some bob"
  "get_by_id (users example_store) 3 = None"
  "get_profile (profiles example_store) alice = Some alice_profile"
  "get_profile (profiles example_store) bob = Some bob_profile"
  "current_user example_store = None"
  "current_user alice_session = Some alice"
  "users alice_session = users example_store"
  "profiles alice_session = profiles example_store"
  "unique_users (users example_store)"
  by (simp_all add: get_or_none_def field_eq_def get_by_id_def get_profile_def current_user_def
      unique_users_def alice_session_def example_store_def alice_def bob_def
      alice_profile_def bob_profile_def)

subsection \<open>Login\<close>

text \<open>
  C3. For a user found by email in \<open>login\<close>: when the stored password hash is absent or
  empty, the session is started for the user and the message ``Need to reset password.''
  is flashed; when a hash is present and the password verifies against it, the session is
  started; when it does not verify, ``Wrong password.'' is flashed and nothing else
  changes: the session is as before and the table of users is untouched (as it is in the
  other two cases).
\<close>

theorem login_outcomes:
  assumes "get_or_none (users st) (field_eq (\<lambda>u. Some (email u)) (Some e)) = Some u"
  shows "(\<not> truthy (password u) \<longrightarrow>
           login verify_password st POST (Some e) pw next_url
           = (Redirect (next_or next_url (UrlFor ''mbp.reset_password'' [])),
              st\<lparr>session := Some (uid u), flashes := flashes st @ [''Need to reset password.'']\<rparr>))
       \<and> (\<forall>h. password u = Some h \<and> h \<noteq> [] \<and> verify_password pw h \<longrightarrow>
           login verify_password st POST (Some e) pw next_url
           = (Redirect (next_or next_url (UrlFor ''mbp.index'' [])),
              st\<lparr>session := Some (uid u), flashes := flashes st @ [''Logged in successfully.'']\<rparr>))
       \<and> (\<forall>h. password u = Some h \<and> h \<noteq> [] \<and> \<not> verify_password pw h \<longrightarrow>
           login verify_password st POST (Some e) pw next_url
           = (Redirect (UrlFor ''mbp.login''
                          [(''next'', case next_url of None \<Rightarrow> ArgNone | Some n \<Rightarrow> ArgStr n)]),
              st\<lparr>flashes := flashes st @ [''Wrong password.'']\<rparr>))"
  using assms by (auto simp: login_def truthy_def flash_def login_user_def split: option.splits)

theorem login_outcomes_witness:
  "get_or_none (users example_store) (field_eq (\<lambda>u. Some (email u)) (Some ''a@x.com'')) = Some alice
   \<and> login example_verify example_store POST (Some ''a@x.com'') (Some ''pw1'') None
       = (Redirect (next_or None (UrlFor ''mbp.index'' [])),
          example_store\<lparr>session := Some (uid alice),
             flashes := flashes example_store @ [''Logged in successfully.'']\<rparr>)
   \<and> login example_verify example_store POST (Some ''a@x.com'') (Some ''wrong'') None
       = (Redirect (UrlFor ''mbp.login'' [(''next'', ArgNone)]),
          example_store\<lparr>flashes := flashes example_store @ [''Wrong password.'']\<rparr>)
   \<and> login example_verify example_store POST (Some ''b@x.com'') (Some ''pw1'') None
       = (Redirect (next_or None (UrlFor ''mbp.reset_password'' [])),
          example_store\<lparr>session := Some (uid bob),
             flashes := flashes example_store @ [''Need to reset password.'']\<rparr>)"
proof -
  have pa: "password alice = Some ''h1''" and pb: "\<not> truthy (password bob)"
    by (simp_all add: alice_def bob_def truthy_def)
  have v: "example_verify (Some ''pw1'') ''h1''" "\<not> example_verify (Some ''wrong'') ''h1''"
    by (simp_all add: example_verify_def)
  from login_outcomes [OF example_lookups(1), of example_verify "Some ''pw1''" None] pa v
  have 1: "login example_verify example_store POST (Some ''a@x.com'') (Some ''pw1'') None
       = (Redirect (next_or None (UrlFor ''mbp.index'' [])),
          example_store\<lparr>session := Some (uid alice),
             flashes := flashes example_store @ [''Logged in successfully.'']\<rparr>)"
    by simp
  from login_outcomes [OF example_lookups(1), of example_verify "Some ''wrong''" None] pa v
  have 2: "login example_verify example_store POST (Some ''a@x.com'') (Some ''wrong'') None
       = (Redirect (UrlFor ''mbp.login'' [(''next'', ArgNone)]),
          example_store\<lparr>flashes := flashes example_store @ [''Wrong password.'']\<rparr>)"
    by simp
  from login_outcomes [OF example_lookups(2), of example_verify "Some ''pw1''" None] pb
  have 3: "login example_verify example_store POST (Some ''b@x.com'') (Some ''pw1'') None
       = (Redirect (next_or None (UrlFor ''mbp.reset_password'' [])),
          example_store\<lparr>session := Some (uid bob),
             flashes := flashes example_store @ [''Need to reset password.'']\<rparr>)"
    by simp
  from example_lookups(1) 1 2 3 show ?thesis by simp
qed

subsection \<open>Viewing a profile\<close>

text \<open>
  C5, as the code has it. For a requester who is not the owner, \<open>profile\<close> answers 404 both
  when no user has the id and when the user exists with a private profile, but the two
  answers differ: the second carries the description ``User's profile is private.'', the
  first carries none. When the profile is public or the requester is the owner, the profile
  page is rendered.
\<close>

theorem profile_not_found_and_visible:
  "(get_by_id (users st) user_id = None \<longrightarrow> profile st user_id = Abort 404 None)
   \<and> (\<forall>u pf. get_by_id (users st) user_id = Some u \<and> get_profile (profiles st) u = Some pf
          \<and> \<not> is_public pf \<and> \<not> is_current_user st u
        \<longrightarrow> profile st user_id = Abort 404 (Some private_message))
   \<and> (\<forall>u pf. get_by_id (users st) user_id = Some u \<and> get_profile (profiles st) u = Some pf
          \<and> (is_public pf \<or> is_current_user st u)
        \<longrightarrow> profile st user_id
            = Render ''profile.html''
                [(''profile_pic_url'',
                  CtxUrl (if truthy (picture u)
                          then UrlFor ''fbp.get_profile_pic'' [(''user_id'', ArgNat user_id)]
                          else static_icon)),
                 (''avatar'', CtxUrl (avatar_url st)),
                 (''profile'', CtxProfile pf)])
   \<and> Abort 404 (Some private_message) \<noteq> Abort 404 None"
  by (auto simp: profile_def profile_pic_url_found)

theorem profile_not_found_and_visible_witness:
  "get_by_id (users example_store) 3 = None
   \<and> profile example_store 3 = Abort 404 None
   \<and> get_by_id (users example_store) 1 = Some alice
   \<and> get_profile (profiles example_store) alice = Some alice_profile
   \<and> \<not> is_public alice_profile \<and> \<not> is_current_user example_store alice
   \<and> profile example_store 1 = Abort 404 (Some private_message)
   \<and> is_current_user alice_session alice
   \<and> profile alice_session 1
      = Render ''profile.html''
          [(''profile_pic_url'', CtxUrl static_icon), (''avatar'', CtxUrl (avatar_url alice_session)),
           (''profile'', CtxProfile alice_profile)]"
proof -
  have f: "\<not> is_public alice_profile" "\<not> is_current_user example_store alice"
    "is_current_user alice_session alice" "\<not> truthy (picture alice)"
    by (simp_all add: is_current_user_def example_lookups alice_profile_def)
      (simp add: alice_def truthy_def)
  from profile_not_found_and_visible [of example_store 3] example_lookups(5)
  have 1: "profile example_store 3 = Abort 404 None" by simp
  from profile_not_found_and_visible [of example_store 1] example_lookups(3,6) f
  have 2: "profile example_store 1 = Abort 404 (Some private_message)" by blast
  from profile_not_found_and_visible [of alice_session 1] example_lookups(3,6,10,11) f
  have 3: "profile alice_session 1
      = Render ''profile.html''
          [(''profile_pic_url'', CtxUrl static_icon), (''avatar'', CtxUrl (avatar_url alice_session)),
           (''profile'', CtxProfile alice_profile)]"
    by simp
  from example_lookups(3,5,6) f 1 2 3 show ?thesis by simp
qed

text \<open>
  C5 as stated fails: in the example store, for the anonymous requester, the answer for
  the absent user 3 and the answer for the private profile of user 1 are different
  responses.
\<close>

theorem profile_distinguishable_counterexample:
  "get_by_id (users example_store) 3 = None
   \<and> profile example_store 3 = Abort 404 None
   \<and> profile example_store 1 = Abort 404 (Some private_message)
   \<and> profile example_store 3 \<noteq> profile example_store 1"
  by (simp add: profile_def get_by_id_def get_profile_def get_or_none_def field_eq_def
      is_current_user_def current_user_def example_store_def alice_def bob_def
      alice_profile_def bob_profile_def)

subsection \<open>Editing a profile\<close>

text \<open>
  C6. For an authenticated user with a profile who posts \<open>edit_profile\<close>: when another
  account has the new username, the conflict message is flashed and the table of users,
  hence the stored username, is unchanged; in every case the profile's education,
  experience and bio are the submitted values afterwards.
\<close>

theorem edit_profile_conflict_and_fields:
  assumes "current_user st = Some cu" and "get_profile (profiles st) cu = Some pf"
  shows "((\<exists>v \<in> set (users st). uid v \<noteq> uid cu \<and> username v = new_username) \<longrightarrow>
            users (snd (edit_profile st POST new_username new_education new_experience new_bio))
              = users st
          \<and> flashes (snd (edit_profile st POST new_username new_education new_experience new_bio))
              = flashes st @ [''New username conflicts with existing account.'',
                              ''Edit Successful!''])
       \<and> get_profile
            (profiles (snd (edit_profile st POST new_username new_education new_experience new_bio)))
            cu
          = Some (pf\<lparr>education := new_education, experience := new_experience, bio := new_bio\<rparr>)
       \<and> fst (edit_profile st POST new_username new_education new_experience new_bio)
          = Redirect (UrlFor ''mbp.profile'' [(''user_id'', ArgNat (uid cu))])"
proof -
  let ?pf = "pf\<lparr>education := new_education, experience := new_experience, bio := new_bio\<rparr>"
  let ?cu = "cu\<lparr>username := new_username\<rparr>"
  have gp: "get_profile (profiles st) ?cu = Some pf"
    using assms(2) by (simp add: get_profile_find)
  have saved: "get_profile (save_profile (profiles st) ?pf) cu = Some ?pf"
    using assms(2) by (intro get_profile_saved) simp_all
  show ?thesis
  proof (cases "save_user (users st) ?cu")
    case None
    then have r: "edit_profile st POST new_username new_education new_experience new_bio
        = (Redirect (UrlFor ''mbp.profile'' [(''user_id'', ArgNat (uid cu))]),
           st\<lparr>profiles := save_profile (profiles st) ?pf,
              flashes := flashes st @ [''New username conflicts with existing account.'',
                                       ''Edit Successful!'']\<rparr>)"
      by (simp add: edit_profile_def assms(1) gp flash_def Let_def)
    show ?thesis by (simp add: r saved)
  next
    case (Some us)
    then have noconf: "\<not> (\<exists>v \<in> set (users st). uid v \<noteq> uid cu \<and> username v = new_username)"
      by (auto simp: save_user_def split: if_splits)
    from Some have r: "edit_profile st POST new_username new_education new_experience new_bio
        = (Redirect (UrlFor ''mbp.profile'' [(''user_id'', ArgNat (uid cu))]),
           st\<lparr>users := us, profiles := save_profile (profiles st) ?pf,
              flashes := flashes st @ [''Edit Successful!'']\<rparr>)"
      by (simp add: edit_profile_def assms(1) gp flash_def Let_def)
    show ?thesis using noconf by (simp add: r saved)
  qed
qed

theorem edit_profile_conflict_and_fields_witness:
  "current_user alice_session = Some alice
   \<and> get_profile (profiles alice_session) alice = Some alice_profile
   \<and> (\<exists>v \<in> set (users alice_session). uid v \<noteq> uid alice \<and> username v = ''bob'')
   \<and> users (snd (edit_profile alice_session POST ''bob'' ''MIT'' ''none'' ''hello''))
       = users alice_session
   \<and> flashes (snd (edit_profile alice_session POST ''bob'' ''MIT'' ''none'' ''hello''))
       = flashes alice_session @ [''New username conflicts with existing account.'',
                                  ''Edit Successful!'']
   \<and> get_profile (profiles (snd (edit_profile alice_session POST ''bob'' ''MIT'' ''none'' ''hello'')))
        alice
      = Some (alice_profile\<lparr>education := ''MIT'', experience := ''none'', bio := ''hello''\<rparr>)"
proof -
  have h1: "current_user alice_session = Some alice" by (rule example_lookups)
  have h2: "get_profile (profiles alice_session) alice = Some alice_profile"
    by (simp add: example_lookups)
  have h3: "\<exists>v \<in> set (users alice_session). uid v \<noteq> uid alice \<and> username v = ''bob''"
    by (simp add: alice_session_def example_store_def alice_def bob_def)
  from edit_profile_conflict_and_fields [OF h1 h2, of "''bob''" "''MIT''" "''none''" "''hello''"] h3
  have "users (snd (edit_profile alice_session POST ''bob'' ''MIT'' ''none'' ''hello''))
       = users alice_session
   \<and> flashes (snd (edit_profile alice_session POST ''bob'' ''MIT'' ''none'' ''hello''))
       = flashes alice_session @ [''New username conflicts with existing account.'',
                                  ''Edit Successful!'']
   \<and> get_profile (profiles (snd (edit_profile alice_session POST ''bob'' ''MIT'' ''none'' ''hello'')))
        alice
      = Some (alice_profile\<lparr>education := ''MIT'', experience := ''none'', bio := ''hello''\<rparr>)"
    by blast
  with h1 h2 h3 show ?thesis by blast
qed

subsection \<open>Resetting the password\<close>

text \<open>
  C7. For an authenticated user, \<open>reset_password\<close> aborts with 403 when the two submitted
  values differ, and the state, hence the stored hash, is unchanged; when they are equal
  (on a table of users that satisfies its uniqueness constraints) the stored hash of the
  user becomes the hash of the new password and no other user changes.
\<close>

theorem reset_password_outcomes:
  assumes "current_user st = Some cu"
  shows "(new_password \<noteq> confirm_password \<longrightarrow>
            reset_password hash_password st POST new_password confirm_password
            = (Abort 403 (Some ''New password is not equal to confirm password.''), st))
       \<and> (new_password = confirm_password \<and> unique_users (users st) \<longrightarrow>
            fst (reset_password hash_password st POST new_password confirm_password)
              = Redirect (UrlFor ''mbp.settings'' [])
          \<and> current_user (snd (reset_password hash_password st POST new_password confirm_password))
              = Some (cu\<lparr>password := Some (hash_password new_password)\<rparr>)
          \<and> users (snd (reset_password hash_password st POST new_password confirm_password))
              = map (\<lambda>v. if uid v = uid cu then cu\<lparr>password := Some (hash_password new_password)\<rparr>
                          else v) (users st))"
proof (intro conjI impI)
  assume "new_password \<noteq> confirm_password"
  then show "reset_password hash_password st POST new_password confirm_password
            = (Abort 403 (Some ''New password is not equal to confirm password.''), st)"
    using assms by (simp add: reset_password_def)
next
  assume a: "new_password = confirm_password \<and> unique_users (users st)"
  let ?u = "cu\<lparr>password := Some (hash_password new_password)\<rparr>"
  let ?us = "map (\<lambda>v. if uid v = uid cu then ?u else v) (users st)"
  have sv: "save_user (users st) ?u = Some ?us"
    using a current_user_SomeD(3) [OF assms] by (intro save_user_same_keys) simp_all
  have r: "reset_password hash_password st POST new_password confirm_password
        = (Redirect (UrlFor ''mbp.settings'' []), flash ''New password set!'' (st\<lparr>users := ?us\<rparr>))"
  proof -
    from a have eq: "confirm_password = new_password" by simp
    show ?thesis unfolding eq by (simp add: reset_password_def assms sv)
  qed
  show "fst (reset_password hash_password st POST new_password confirm_password)
              = Redirect (UrlFor ''mbp.settings'' [])"
    by (simp add: r)
  show "users (snd (reset_password hash_password st POST new_password confirm_password)) = ?us"
    by (simp add: r flash_def)
  have "get_by_id ?us (uid cu) = Some ?u"
    using current_user_SomeD(2) [OF assms] by (intro get_by_id_saved) simp_all
  then show "current_user (snd (reset_password hash_password st POST new_password confirm_password))
              = Some ?u"
    by (simp add: r flash_def current_user_def current_user_SomeD(1) [OF assms])
qed

theorem reset_password_outcomes_witness:
  "current_user alice_session = Some alice
   \<and> reset_password example_hash alice_session POST (Some ''new'') (Some ''other'')
      = (Abort 403 (Some ''New password is not equal to confirm password.''), alice_session)
   \<and> unique_users (users alice_session)
   \<and> current_user (snd (reset_password example_hash alice_session POST (Some ''new'') (Some ''new'')))
      = Some (alice\<lparr>password := Some (example_hash (Some ''new''))\<rparr>)"
proof -
  have h: "current_user alice_session = Some alice" by (rule example_lookups)
  have u: "unique_users (users alice_session)" by (simp add: example_lookups)
  from reset_password_outcomes [OF h, of "Some ''new''" "Some ''other''" example_hash]
  have 1: "reset_password example_hash alice_session POST (Some ''new'') (Some ''other'')
      = (Abort 403 (Some ''New password is not equal to confirm password.''), alice_session)"
    by simp
  from reset_password_outcomes [OF h, of "Some ''new''" "Some ''new''" example_hash] u
  have 2: "current_user (snd (reset_password example_hash alice_session POST (Some ''new'') (Some ''new'')))
      = Some (alice\<lparr>password := Some (example_hash (Some ''new''))\<rparr>)"
    by simp
  from h u 1 2 show ?thesis by simp
qed

subsection \<open>Search\<close>















subsection \<open>Uploading an avatar twice\<close>

lemma unique_users_saved:
  assumes "unique_users us" and "cu \<in> set us"
    and "uid u = uid cu" and "username u = username cu" and "email u = email cu"
  shows "unique_users (map (\<lambda>v. if uid v = uid cu then u else v) us)"
proof -
  have inj: "inj_on uid (set us)"
    using assms(1) by (simp add: unique_users_def distinct_map)
  have same: "v = cu" if "v \<in> set us" "uid v = uid cu" for v
    using inj that assms(2) by (auto dest: inj_onD)
  have eqs: "map uid (map (\<lambda>v. if uid v = uid cu then u else v) us) = map uid us"
    "map username (map (\<lambda>v. if uid v = uid cu then u else v) us) = map username us"
    "map email (map (\<lambda>v. if uid v = uid cu then u else v) us) = map email us"
    using same assms(3-5) by (auto simp: map_eq_conv)
  show ?thesis using assms(1) unfolding unique_users_def by (simp only: eqs)
qed

lemma upload_step:
  assumes "current_user st = Some cu" and "unique_users (users st)" and "filename file \<noteq> []"
    and "plain_name (username cu @ suf (sec (filename file)))"
  shows "profile_pic_upload sec suf out st [''file'' \<mapsto> file]
         = (JsonMessage ''Profile picture saved successfully.'',
            st\<lparr>pic_dir := (pic_dir st)(username cu @ suf (sec (filename file)) \<mapsto> body file),
               users := map (\<lambda>v. if uid v = uid cu
                                  then cu\<lparr>picture := Some (username cu @ suf (sec (filename file)))\<rparr>
                                  else v) (users st)\<rparr>)"
proof -
  let ?u = "cu\<lparr>picture := Some (username cu @ suf (sec (filename file)))\<rparr>"
  have "save_user (users st) ?u = Some (map (\<lambda>v. if uid v = uid cu then ?u else v) (users st))"
    using assms(2) current_user_SomeD(3) [OF assms(1)] by (intro save_user_same_keys) simp_all
  then show ?thesis
    using assms(3,4) by (simp add: profile_pic_upload_def file_save_def assms(1) Let_def)
qed

lemma after_upload_facts:
  assumes "current_user st = Some cu" and "unique_users (users st)" and "filename file \<noteq> []"
    and "plain_name (username cu @ suf (sec (filename file)))"
  shows "current_user (after_upload sec suf out st file)
         = Some (cu\<lparr>picture := Some (username cu @ suf (sec (filename file)))\<rparr>)"
    and "unique_users (users (after_upload sec suf out st file))"
    and "pic_dir (after_upload sec suf out st file) (username cu @ suf (sec (filename file)))
         = Some (body file)"
proof -
  let ?u = "cu\<lparr>picture := Some (username cu @ suf (sec (filename file)))\<rparr>"
  note step = upload_step [where sec = sec and suf = suf and out = out, OF assms]
  have "get_by_id (map (\<lambda>v. if uid v = uid cu then ?u else v) (users st)) (uid cu) = Some ?u"
    using current_user_SomeD(2) [OF assms(1)] by (intro get_by_id_saved) simp_all
  then show "current_user (after_upload sec suf out st file) = Some ?u"
    by (simp add: after_upload_def step current_user_def current_user_SomeD(1) [OF assms(1)])
  show "unique_users (users (after_upload sec suf out st file))"
    using assms(2) current_user_SomeD(3) [OF assms(1)]
    by (simp add: after_upload_def step) (intro unique_users_saved, simp_all)
  show "pic_dir (after_upload sec suf out st file) (username cu @ suf (sec (filename file)))
         = Some (body file)"
    by (simp add: after_upload_def step)
qed

lemma get_profile_pic_self:
  assumes "current_user st = Some u" and "picture u = Some p" and "plain_name p"
    and "pic_dir st p = Some b"
  shows "get_profile_pic out st None = SendFromDirectory PIC_PATH p"
    and "served st (get_profile_pic out st None) = Some b"
proof -
  from assms(3) have "p \<noteq> []" by (simp add: plain_name_def)
  with assms show "get_profile_pic out st None = SendFromDirectory PIC_PATH p"
    by (simp add: get_profile_pic_def truthy_def is_file_def)
  with assms(4) show "served st (get_profile_pic out st None) = Some b"
    by (simp add: served_def)
qed

text \<open>
  C9, as the code has it. For an authenticated user (on a table of users that satisfies
  its uniqueness constraints) who uploads two avatar files with non-empty names one after
  the other, when the name under which each is stored, the username followed by the
  suffix of that upload's sanitised file name, is a plain file name: after each upload
  the picture recorded on the user is that name, so the two recorded names are equal when
  the two suffixes are equal; and after either upload, fetching the user's own avatar
  sends the file of that name from the picture directory, whose content is the bytes
  uploaded last. Nothing is said of a stored name that is not a plain file name (a
  username with a path separator).
\<close>

theorem avatar_upload_twice:
  assumes "current_user st = Some cu" and "unique_users (users st)"
    and "filename first_file \<noteq> []" and "filename second_file \<noteq> []"
    and "plain_name (username cu @ suf (sec (filename first_file)))"
    and "plain_name (username cu @ suf (sec (filename second_file)))"
  shows "map_option picture (current_user (after_upload sec suf out st first_file))
           = Some (Some (username cu @ suf (sec (filename first_file))))
       \<and> map_option picture
           (current_user (after_upload sec suf out (after_upload sec suf out st first_file) second_file))
           = Some (Some (username cu @ suf (sec (filename second_file))))
       \<and> (suf (sec (filename first_file)) = suf (sec (filename second_file)) \<longrightarrow>
            map_option picture
              (current_user (after_upload sec suf out (after_upload sec suf out st first_file) second_file))
            = map_option picture (current_user (after_upload sec suf out st first_file)))
       \<and> get_profile_pic out (after_upload sec suf out st first_file) None
           = SendFromDirectory PIC_PATH (username cu @ suf (sec (filename first_file)))
       \<and> served (after_upload sec suf out st first_file)
            (get_profile_pic out (after_upload sec suf out st first_file) None)
           = Some (body first_file)
       \<and> get_profile_pic out (after_upload sec suf out (after_upload sec suf out st first_file) second_file) None
           = SendFromDirectory PIC_PATH (username cu @ suf (sec (filename second_file)))
       \<and> served (after_upload sec suf out (after_upload sec suf out st first_file) second_file)
            (get_profile_pic out (after_upload sec suf out (after_upload sec suf out st first_file) second_file)
               None)
           = Some (body second_file)"
proof -
  let ?n1 = "username cu @ suf (sec (filename first_file))"
  let ?n2 = "username cu @ suf (sec (filename second_file))"
  let ?st1 = "after_upload sec suf out st first_file"
  let ?st2 = "after_upload sec suf out ?st1 second_file"
  let ?cu1 = "cu\<lparr>picture := Some ?n1\<rparr>"
  note a1 = after_upload_facts [where sec = sec and suf = suf and out = out, OF assms(1,2,3,5)]
  have p2: "plain_name (username ?cu1 @ suf (sec (filename second_file)))" using assms(6) by simp
  have a2: "current_user ?st2 = Some (?cu1\<lparr>picture := Some ?n2\<rparr>)"
    "pic_dir ?st2 ?n2 = Some (body second_file)"
    using after_upload_facts(1,3) [where sec = sec and suf = suf and out = out,
        OF a1(1) a1(2) assms(4) p2] by simp_all
  have g1: "get_profile_pic out ?st1 None = SendFromDirectory PIC_PATH ?n1"
    "served ?st1 (get_profile_pic out ?st1 None) = Some (body first_file)"
    using get_profile_pic_self [OF a1(1) _ assms(5) a1(3), of out] by simp_all
  have g2: "get_profile_pic out ?st2 None = SendFromDirectory PIC_PATH ?n2"
    "served ?st2 (get_profile_pic out ?st2 None) = Some (body second_file)"
    using get_profile_pic_self [OF a2(1) _ assms(6) a2(2), of out] by simp_all
  show ?thesis using g1 g2 by (simp add: a1(1) a2(1))
qed

lemma path_suffix_examples: "path_suffix ''a.png'' = ''.png''" "path_suffix ''b.jpg'' = ''.jpg''"
  by (simp_all add: path_suffix_def)

lemma example_plain_names:
  "plain_name (username alice @ path_suffix (filename png_file))"
  "plain_name (username alice @ path_suffix (filename jpg_file))"
  by (simp_all add: plain_name_def alice_def png_file_def jpg_file_def path_suffix_examples)

theorem avatar_upload_twice_witness:
  "current_user alice_session = Some alice \<and> unique_users (users alice_session)
   \<and> filename png_file \<noteq> [] \<and> filename jpg_file \<noteq> []
   \<and> plain_name (username alice @ path_suffix (filename png_file))
   \<and> plain_name (username alice @ path_suffix (filename jpg_file))
   \<and> served (after_upload (\<lambda>n. n) path_suffix no_outside alice_session png_file)
        (get_profile_pic no_outside
           (after_upload (\<lambda>n. n) path_suffix no_outside alice_session png_file) None)
      = Some (body png_file)
   \<and> served (after_upload (\<lambda>n. n) path_suffix no_outside
                (after_upload (\<lambda>n. n) path_suffix no_outside alice_session png_file) jpg_file)
        (get_profile_pic no_outside
           (after_upload (\<lambda>n. n) path_suffix no_outside
                (after_upload (\<lambda>n. n) path_suffix no_outside alice_session png_file) jpg_file)
           None)
      = Some (body jpg_file)
   \<and> map_option picture (current_user (after_upload (\<lambda>n. n) path_suffix no_outside
                (after_upload (\<lambda>n. n) path_suffix no_outside alice_session png_file) png_file))
      = map_option picture
          (current_user (after_upload (\<lambda>n. n) path_suffix no_outside alice_session png_file))"
proof -
  have h: "current_user alice_session = Some alice" "unique_users (users alice_session)"
    "filename png_file \<noteq> []" "filename jpg_file \<noteq> []"
    by (simp_all add: example_lookups png_file_def jpg_file_def)
  note p = example_plain_names
  from avatar_upload_twice [where sec = "\<lambda>n. n" and suf = path_suffix and out = no_outside,
      OF h p]
    avatar_upload_twice [where sec = "\<lambda>n. n" and suf = path_suffix and out = no_outside,
      OF h(1,2,3,3) p(1,1)]
  show ?thesis using h p by blast
qed

text \<open>
  C9 as stated fails: the recorded name keeps the extension of each upload. Alice uploads
  \<open>a.png\<close> and then \<open>b.jpg\<close> (names that \<^verbatim>\<open>secure_filename\<close> leaves as they are): the
  picture recorded after the first upload is \<open>alice.png\<close>, after the second \<open>alice.jpg\<close>.
\<close>

theorem avatar_name_changes_counterexample:
  "map_option picture
     (current_user (after_upload (\<lambda>n. n) path_suffix no_outside alice_session png_file))
     = Some (Some ''alice.png'')
   \<and> map_option picture (current_user (after_upload (\<lambda>n. n) path_suffix no_outside
          (after_upload (\<lambda>n. n) path_suffix no_outside alice_session png_file) jpg_file))
     = Some (Some ''alice.jpg'')
   \<and> map_option picture (current_user (after_upload (\<lambda>n. n) path_suffix no_outside
          (after_upload (\<lambda>n. n) path_suffix no_outside alice_session png_file) jpg_file))
     \<noteq> map_option picture
         (current_user (after_upload (\<lambda>n. n) path_suffix no_outside alice_session png_file))"
proof -
  have h: "current_user alice_session = Some alice" "unique_users (users alice_session)"
    "filename png_file \<noteq> []" "filename jpg_file \<noteq> []"
    by (simp_all add: example_lookups png_file_def jpg_file_def)
  note p = example_plain_names
  note a1 = after_upload_facts [where sec = "\<lambda>n. n" and suf = path_suffix and out = no_outside,
      OF h(1,2,3) p(1)]
  have p2: "plain_name (username (alice\<lparr>picture := Some (username alice
              @ path_suffix (filename png_file))\<rparr>) @ path_suffix (filename jpg_file))"
    using p(2) by simp
  note a2 = after_upload_facts(1) [where sec = "\<lambda>n. n" and suf = path_suffix
      and out = no_outside, OF a1(1) a1(2) h(4) p2]
  show ?thesis
    unfolding a1(1) a2
    by (simp add: png_file_def jpg_file_def path_suffix_examples alice_def)
qed

text \<open>
  With the username \<open>sub/alice\<close> the stored name is not plain; where the write raises, as
  it does when the picture directory has no directory \<open>sub\<close>, the handler ends in that
  error and records no picture.
\<close>

lemma profile_pic_upload_write_fails:
  "current_user slash_session = Some (alice\<lparr>username := ''sub/alice''\<rparr>)
   \<and> \<not> plain_name (''sub/alice'' @ path_suffix (filename png_file))
   \<and> profile_pic_upload (\<lambda>n. n) path_suffix no_outside slash_session [''file'' \<mapsto> png_file]
      = (Unhandled (OtherError ''FileNotFoundError''), slash_session)"
  by (simp add: profile_pic_upload_def file_save_def plain_name_def current_user_def
      get_by_id_def slash_session_def example_store_def alice_def bob_def no_outside_def
      png_file_def path_suffix_examples)

subsection \<open>Uploading a ring\<close>




end
